theory Spec2Isabelle
  imports Main "HOL-Library.Product_Lexorder" "HOL-Library.Multiset"
begin

section \<open>Python values used by the domain model\<close>

text \<open>
  The model follows \<^verbatim>\<open>src/pft.py\<close>. Strings are lists of characters with code points
  below 256. Exceptions are values of the type \<open>error\<close>; a function that may raise
  returns \<open>error + 'a\<close>, with \<open>Inl\<close> for the exception.
\<close>

datatype error =
    InvalidAccountError string
  | InvalidTransactionError string
  | InvalidLedgerError string
  | BudgetError string
  | InvalidOperation
  | ValueError
  | TypeError
  | OverflowError
  | IndexError
  | ProgrammingError

subsection \<open>Digits\<close>

definition is_digit :: "char \<Rightarrow> bool" where
  "is_digit c = (48 \<le> (of_char c :: nat) \<and> (of_char c :: nat) \<le> 57)"

definition digit_char :: "nat \<Rightarrow> char" where
  "digit_char d =
     (if d = 0 then CHR ''0'' else if d = 1 then CHR ''1'' else if d = 2 then CHR ''2''
      else if d = 3 then CHR ''3'' else if d = 4 then CHR ''4'' else if d = 5 then CHR ''5''
      else if d = 6 then CHR ''6'' else if d = 7 then CHR ''7'' else if d = 8 then CHR ''8''
      else CHR ''9'')"

definition digit_val :: "char \<Rightarrow> nat" where
  "digit_val c = of_char c - 48"

text \<open>\<^verbatim>\<open>str(n)\<close> for a natural number: its decimal digits, no leading zero.\<close>

function digits_of :: "nat \<Rightarrow> string" where
  "digits_of n = (if n < 10 then [digit_char n] else digits_of (n div 10) @ [digit_char (n mod 10)])"
  by pat_completeness auto
termination
  by (relation "measure id") auto

declare digits_of.simps [simp del]

text \<open>The value of a string of decimal digits, leading zeros allowed; the empty string is 0.\<close>

definition nat_of_digits :: "string \<Rightarrow> nat" where
  "nat_of_digits s = foldl (\<lambda>a c. 10 * a + digit_val c) 0 s"

text \<open>\<^verbatim>\<open>str(i)\<close> for an integer, and the \<^verbatim>\<open>%+d\<close> format.\<close>

definition int_str :: "int \<Rightarrow> string" where
  "int_str i = (if i < 0 then CHR ''-'' # digits_of (nat (- i)) else digits_of (nat i))"

definition int_str_signed :: "int \<Rightarrow> string" where
  "int_str_signed i = (if i < 0 then CHR ''-'' # digits_of (nat (- i)) else CHR ''+'' # digits_of (nat i))"

subsection \<open>String helpers\<close>

text \<open>\<^verbatim>\<open>s.split(sep)\<close> for a separator of one character: never an empty list.\<close>

fun split_on :: "char \<Rightarrow> string \<Rightarrow> string list" where
  "split_on sep [] = [[]]"
| "split_on sep (c # cs) =
     (if c = sep then [] # split_on sep cs
      else (case split_on sep cs of
              [] \<Rightarrow> [[c]]
            | p # ps \<Rightarrow> (c # p) # ps))"

definition strip_with :: "(char \<Rightarrow> bool) \<Rightarrow> string \<Rightarrow> string" where
  "strip_with sp s = rev (dropWhile sp (rev (dropWhile sp s)))"

text \<open>
  Matching a lower-case pattern at the start of a string without regard to case; the
  result is the rest of the string.
\<close>

definition ci_char :: "char \<Rightarrow> char \<Rightarrow> bool" where
  "ci_char p c = (c = p \<or> (of_char c :: nat) + 32 = of_char p)"

fun ci_prefix :: "string \<Rightarrow> string \<Rightarrow> string option" where
  "ci_prefix [] s = Some s"
| "ci_prefix (p # ps) [] = None"
| "ci_prefix (p # ps) (c # cs) = (if ci_char p c then ci_prefix ps cs else None)"

text \<open>
  Whitespace as \<^verbatim>\<open>str.strip()\<close> and the \<^verbatim>\<open>Decimal\<close> constructor see it
  (tab to carriage return, the separators 28 to 31, space, NEL, no-break space), and as
  \<^verbatim>\<open>int()\<close> sees it (the same without 28 to 31).
\<close>

definition is_space :: "char \<Rightarrow> bool" where
  "is_space c = (let n = (of_char c :: nat) in
     (9 \<le> n \<and> n \<le> 13) \<or> (28 \<le> n \<and> n \<le> 32) \<or> n = 133 \<or> n = 160)"

definition is_int_space :: "char \<Rightarrow> bool" where
  "is_int_space c = (let n = (of_char c :: nat) in
     (9 \<le> n \<and> n \<le> 13) \<or> n = 32 \<or> n = 133 \<or> n = 160)"

subsection \<open>\<^verbatim>\<open>int(s)\<close> for a string\<close>

text \<open>
  \<^verbatim>\<open>int(s)\<close> accepts surrounding whitespace, one optional sign, and decimal digits
  with single underscores between digits; anything else raises \<^verbatim>\<open>ValueError\<close>
  (\<open>None\<close> here). The limit of recent Python versions on the number of digits is not
  modelled.
\<close>

fun int_body_ok :: "string \<Rightarrow> bool" where
  "int_body_ok [] = False"
| "int_body_ok [c] = is_digit c"
| "int_body_ok (c # d # cs) =
     (if is_digit c then int_body_ok (d # cs)
      else c = CHR ''_'' \<and> is_digit d \<and> int_body_ok (d # cs))"

definition int_literal_ok :: "string \<Rightarrow> bool" where
  "int_literal_ok body = (case body of [] \<Rightarrow> False | c # _ \<Rightarrow> is_digit c \<and> int_body_ok body)"

definition py_int :: "string \<Rightarrow> int option" where
  "py_int s =
     (let t = strip_with is_int_space s;
          neg = (case t of c # _ \<Rightarrow> c = CHR ''-'' | [] \<Rightarrow> False);
          body = (case t of c # r \<Rightarrow> (if c = CHR ''-'' \<or> c = CHR ''+'' then r else t) | [] \<Rightarrow> [])
      in if int_literal_ok body
         then Some ((if neg then - 1 else 1) * int (nat_of_digits (filter (\<lambda>c. c \<noteq> CHR ''_'') body)))
         else None)"

subsection \<open>\<^verbatim>\<open>decimal.Decimal\<close>\<close>

text \<open>
  A \<^verbatim>\<open>Decimal\<close> is a sign, a coefficient and an exponent, or an infinity, or a NaN
  (sign, signalling flag, payload with 0 for none). Arithmetic follows the default context:
  precision 28, rounding half-even, with the traps for \<^verbatim>\<open>InvalidOperation\<close> set.
  The exponent limits of the context (\<^verbatim>\<open>Emax = 999999\<close>, \<^verbatim>\<open>Emin = -999999\<close>) and
  of the representation are not modelled: exponents are unbounded.
\<close>

datatype decimal =
    Finite bool nat int
  | Infinity bool
  | NaN bool bool nat

definition sign_str :: "bool \<Rightarrow> string" where
  "sign_str s = (if s then ''-'' else [])"

text \<open>\<^verbatim>\<open>Decimal.__str__\<close>: plain notation when the exponent is at most 0 and more than
  \<open>-6\<close> digits are left of the point, scientific notation otherwise.\<close>

definition dec_str :: "decimal \<Rightarrow> string" where
  "dec_str x =
     (case x of
        Infinity s \<Rightarrow> sign_str s @ ''Infinity''
      | NaN s sig p \<Rightarrow>
          sign_str s @ (if sig then ''sNaN'' else ''NaN'') @ (if p = 0 then [] else digits_of p)
      | Finite s c e \<Rightarrow>
          (let ds = digits_of c;
               leftdigits = e + int (length ds);
               dotplace = (if e \<le> 0 \<and> leftdigits > - 6 then leftdigits else 1);
               intpart = (if dotplace \<le> 0 then ''0''
                          else if dotplace \<ge> int (length ds)
                          then ds @ replicate (nat (dotplace - int (length ds))) CHR ''0''
                          else take (nat dotplace) ds);
               fracpart = (if dotplace \<le> 0 then CHR ''.'' # replicate (nat (- dotplace)) CHR ''0'' @ ds
                           else if dotplace \<ge> int (length ds) then []
                           else CHR ''.'' # drop (nat dotplace) ds);
               exp = (if leftdigits = dotplace then []
                      else CHR ''E'' # int_str_signed (leftdigits - dotplace))
           in sign_str s @ intpart @ fracpart @ exp))"




text \<open>
  \<^verbatim>\<open>Decimal(s)\<close> for a string: surrounding whitespace is stripped and underscores are
  removed; then an optional sign and either digits with an optional fraction and an
  optional exponent (at least one digit in all), or \<^verbatim>\<open>Inf\<close>, \<^verbatim>\<open>Infinity\<close>,
  \<^verbatim>\<open>NaN\<close> or \<^verbatim>\<open>sNaN\<close> with payload digits, without regard to case. \<open>None\<close> is
  \<^verbatim>\<open>InvalidOperation\<close>.
\<close>

definition parse_exp :: "string \<Rightarrow> int option" where
  "parse_exp t =
     (let neg = (case t of c # _ \<Rightarrow> c = CHR ''-'' | [] \<Rightarrow> False);
          ds = (case t of c # r \<Rightarrow> (if c = CHR ''-'' \<or> c = CHR ''+'' then r else t) | [] \<Rightarrow> [])
      in if ds \<noteq> [] \<and> list_all is_digit ds
         then Some ((if neg then - 1 else 1) * int (nat_of_digits ds))
         else None)"

definition parse_number :: "string \<Rightarrow> (nat \<times> int) option" where
  "parse_number s =
     (let ip = takeWhile is_digit s;
          r1 = dropWhile is_digit s;
          fp = (case r1 of c # t \<Rightarrow> (if c = CHR ''.'' then takeWhile is_digit t else []) | [] \<Rightarrow> []);
          r2 = (case r1 of c # t \<Rightarrow> (if c = CHR ''.'' then dropWhile is_digit t else r1) | [] \<Rightarrow> [])
      in if ip = [] \<and> fp = [] then None
         else (case r2 of
                 [] \<Rightarrow> Some (nat_of_digits (ip @ fp), - int (length fp))
               | c # t \<Rightarrow>
                   (if c = CHR ''e'' \<or> c = CHR ''E''
                    then (case parse_exp t of
                            None \<Rightarrow> None
                          | Some x \<Rightarrow> Some (nat_of_digits (ip @ fp), x - int (length fp)))
                    else None)))"

definition parse_special :: "bool \<Rightarrow> string \<Rightarrow> decimal option" where
  "parse_special neg body =
     (case ci_prefix ''inf'' body of
        Some r \<Rightarrow> (if r = [] \<or> ci_prefix ''inity'' r = Some [] then Some (Infinity neg) else None)
      | None \<Rightarrow>
          (case ci_prefix ''nan'' body of
             Some r \<Rightarrow> (if list_all is_digit r then Some (NaN neg False (nat_of_digits r)) else None)
           | None \<Rightarrow>
               (case ci_prefix ''snan'' body of
                  Some r \<Rightarrow> (if list_all is_digit r then Some (NaN neg True (nat_of_digits r)) else None)
                | None \<Rightarrow> None)))"

definition Decimal_of_str :: "string \<Rightarrow> decimal option" where
  "Decimal_of_str s =
     (let t = filter (\<lambda>c. c \<noteq> CHR ''_'') (strip_with is_space s);
          neg = (case t of c # _ \<Rightarrow> c = CHR ''-'' | [] \<Rightarrow> False);
          body = (case t of c # r \<Rightarrow> (if c = CHR ''-'' \<or> c = CHR ''+'' then r else t) | [] \<Rightarrow> [])
      in case parse_number body of
           Some (c, e) \<Rightarrow> Some (Finite neg c e)
         | None \<Rightarrow> parse_special neg body)"

definition Decimal_of_int :: "int \<Rightarrow> decimal" where
  "Decimal_of_int i = Finite (i < 0) (nat \<bar>i\<bar>) 0"

text \<open>\<^verbatim>\<open>Decimal.__bool__\<close>: false for a zero of either sign and any exponent only.\<close>

fun dec_bool :: "decimal \<Rightarrow> bool" where
  "dec_bool (Finite s c e) = (c \<noteq> 0)"
| "dec_bool _ = True"


text \<open>Rounding a result to the precision of the context, half-even.\<close>

definition prec :: nat where
  "prec = 28"

definition dec_fix :: "bool \<Rightarrow> nat \<Rightarrow> int \<Rightarrow> decimal" where
  "dec_fix s c e =
     (if c < 10 ^ prec then Finite s c e
      else (let k = length (digits_of c) - prec;
                q = c div 10 ^ k;
                r = c mod 10 ^ k;
                half = 5 * 10 ^ (k - 1);
                q' = (if r > half \<or> (r = half \<and> odd q) then q + 1 else q)
            in if q' = 10 ^ prec then Finite s (10 ^ (prec - 1)) (e + int k + 1)
               else Finite s q' (e + int k)))"

definition fix_nan :: "bool \<Rightarrow> nat \<Rightarrow> decimal" where
  "fix_nan s p = NaN s False (p mod 10 ^ prec)"

text \<open>The signed coefficient of a finite decimal at a common exponent \<open>e0 \<le> e\<close>.\<close>

definition aligned :: "int \<Rightarrow> bool \<Rightarrow> nat \<Rightarrow> int \<Rightarrow> int" where
  "aligned e0 s c e = (if s then - 1 else 1) * int c * 10 ^ nat (e - e0)"

fun dec_add :: "decimal \<Rightarrow> decimal \<Rightarrow> error + decimal" where
  "dec_add (NaN s True p) y = Inl InvalidOperation"
| "dec_add x (NaN s True p) = Inl InvalidOperation"
| "dec_add (NaN s False p) y = Inr (fix_nan s p)"
| "dec_add x (NaN s False p) = Inr (fix_nan s p)"
| "dec_add (Infinity s1) (Infinity s2) = (if s1 = s2 then Inr (Infinity s1) else Inl InvalidOperation)"
| "dec_add (Infinity s1) (Finite s2 c2 e2) = Inr (Infinity s1)"
| "dec_add (Finite s1 c1 e1) (Infinity s2) = Inr (Infinity s2)"
| "dec_add (Finite s1 c1 e1) (Finite s2 c2 e2) =
     (let e = min e1 e2;
          t = aligned e s1 c1 e1 + aligned e s2 c2 e2
      in if c1 = 0 \<and> c2 = 0 then Inr (Finite (s1 \<and> s2) 0 e)
         else if t = 0 then Inr (Finite False 0 e)
         else Inr (dec_fix (t < 0) (nat \<bar>t\<bar>) e))"

fun dec_abs :: "decimal \<Rightarrow> error + decimal" where
  "dec_abs (NaN s True p) = Inl InvalidOperation"
| "dec_abs (NaN s False p) = Inr (fix_nan s p)"
| "dec_abs (Infinity s) = Inr (Infinity False)"
| "dec_abs (Finite s c e) = Inr (dec_fix False c e)"

text \<open>\<^verbatim>\<open>x > y\<close>: a comparison with a NaN raises, the others compare the values.\<close>

fun dec_gt :: "decimal \<Rightarrow> decimal \<Rightarrow> error + bool" where
  "dec_gt (NaN s sig p) y = Inl InvalidOperation"
| "dec_gt x (NaN s sig p) = Inl InvalidOperation"
| "dec_gt (Infinity s1) (Infinity s2) = Inr (\<not> s1 \<and> s2)"
| "dec_gt (Infinity s1) (Finite s2 c2 e2) = Inr (\<not> s1)"
| "dec_gt (Finite s1 c1 e1) (Infinity s2) = Inr s2"
| "dec_gt (Finite s1 c1 e1) (Finite s2 c2 e2) =
     Inr (aligned (min e1 e2) s1 c1 e1 > aligned (min e1 e2) s2 c2 e2)"

subsection \<open>\<^verbatim>\<open>datetime.date\<close>\<close>

datatype date = Date (year: nat) (month: nat) (day: nat)

definition is_leap :: "nat \<Rightarrow> bool" where
  "is_leap y = (y mod 4 = 0 \<and> (y mod 100 \<noteq> 0 \<or> y mod 400 = 0))"

definition days_in_month :: "nat \<Rightarrow> nat \<Rightarrow> nat" where
  "days_in_month y m =
     (if m = 2 then (if is_leap y then 29 else 28)
      else if m = 4 \<or> m = 6 \<or> m = 9 \<or> m = 11 then 30
      else 31)"

text \<open>The dates Python can represent: every \<^verbatim>\<open>date\<close> object satisfies this.\<close>

definition valid_date :: "date \<Rightarrow> bool" where
  "valid_date d =
     (1 \<le> year d \<and> year d \<le> 9999 \<and> 1 \<le> month d \<and> month d \<le> 12 \<and>
      1 \<le> day d \<and> day d \<le> days_in_month (year d) (month d))"

definition c_int :: "int \<Rightarrow> bool" where
  "c_int i = (- 2147483648 \<le> i \<and> i \<le> 2147483647)"

text \<open>
  The constructor \<^verbatim>\<open>date(y, m, d)\<close>: \<^verbatim>\<open>OverflowError\<close> for an argument that is
  no C int, \<^verbatim>\<open>ValueError\<close> for one out of range.
\<close>

definition mk_date :: "int \<Rightarrow> int \<Rightarrow> int \<Rightarrow> error + date" where
  "mk_date y m d =
     (if \<not> (c_int y \<and> c_int m \<and> c_int d) then Inl OverflowError
      else if 1 \<le> y \<and> y \<le> 9999 \<and> 1 \<le> m \<and> m \<le> 12 \<and> 1 \<le> d \<and>
              d \<le> int (days_in_month (nat y) (nat m))
      then Inr (Date (nat y) (nat m) (nat d))
      else Inl ValueError)"


text \<open>
  \<^verbatim>\<open>d.strftime('%Y-%m-%d')\<close>: month and day with two digits; the year as the C
  library prints it, without padding.
\<close>

definition pad2 :: "nat \<Rightarrow> string" where
  "pad2 n = (if n < 10 then CHR ''0'' # digits_of n else digits_of n)"

definition strftime_ymd :: "date \<Rightarrow> string" where
  "strftime_ymd d = digits_of (year d) @ CHR ''-'' # pad2 (month d) @ CHR ''-'' # pad2 (day d)"

subsection \<open>Loosely typed arguments\<close>

text \<open>
  The values the constructors dispatch on by type. \<open>PyOther b\<close> is an object of any
  other type (a list, a dictionary, an object of the application), with its truth value;
  floats are outside the model.
\<close>

datatype pyval =
    PyNone
  | PyBool bool
  | PyInt int
  | PyStr string
  | PyDecimal decimal
  | PyDate date
  | PyOther bool

fun truthy :: "pyval \<Rightarrow> bool" where
  "truthy PyNone = False"
| "truthy (PyBool b) = b"
| "truthy (PyInt i) = (i \<noteq> 0)"
| "truthy (PyStr s) = (s \<noteq> [])"
| "truthy (PyDecimal d) = dec_bool d"
| "truthy (PyDate d) = True"
| "truthy (PyOther b) = b"

section \<open>Account, Category, Transaction\<close>

record account =
  acc_id :: "nat option"
  acc_name :: string
  starting_balance :: decimal

record category =
  cat_name :: string
  cat_id :: "nat option"

text \<open>
  An entry of the \<^verbatim>\<open>categories\<close> argument: a tuple of a category and an amount, a
  bare category, or anything else (which the loop of \<^verbatim>\<open>_check_categories\<close> skips).
\<close>

datatype category_input =
    CatTuple category decimal
  | CatOnly category
  | CatOther

record transaction =
  account :: account
  amount :: decimal
  txn_date :: date
  txn_type :: "string option"
  categories :: "(category \<times> decimal) list"
  payee :: "string option"
  description :: "string option"
  status :: "string option"
  txn_id :: "nat option"

definition check_account :: "account option \<Rightarrow> error + account" where
  "check_account a =
     (case a of
        None \<Rightarrow> Inl (InvalidTransactionError ''transaction must belong to an account'')
      | Some acc \<Rightarrow> Inr acc)"

text \<open>The type dispatch of \<^verbatim>\<open>_check_amount\<close>; a \<^verbatim>\<open>bool\<close> is an \<^verbatim>\<open>int\<close>.\<close>

fun amount_decimal :: "pyval \<Rightarrow> error + decimal" where
  "amount_decimal (PyDecimal d) = Inr d"
| "amount_decimal (PyInt i) = Inr (Decimal_of_int i)"
| "amount_decimal (PyBool b) = Inr (Decimal_of_int (if b then 1 else 0))"
| "amount_decimal (PyStr s) =
     (case Decimal_of_str s of
        None \<Rightarrow> Inl (InvalidTransactionError (''invalid amount '' @ s))
      | Some d \<Rightarrow> Inr d)"
| "amount_decimal _ = Inl (InvalidTransactionError ''invalid type for amount'')"

text \<open>The check for fractions of cents, on the string of the decimal.\<close>

definition fraction_check :: "string \<Rightarrow> decimal \<Rightarrow> error + decimal" where
  "fraction_check amt_str d =
     (if CHR ''.'' \<in> set amt_str
      then (case split_on CHR ''.'' amt_str of
              [u, decimals] \<Rightarrow>
                (if length decimals > 2
                 then Inl (InvalidTransactionError ''no fractions of cents in a transaction'')
                 else Inr d)
            | _ \<Rightarrow> Inl ValueError)
      else Inr d)"

definition check_cents :: "decimal \<Rightarrow> error + decimal" where
  "check_cents d = fraction_check (dec_str d) d"

definition check_amount :: "pyval \<Rightarrow> error + decimal" where
  "check_amount a =
     (if \<not> truthy a then Inl (InvalidTransactionError ''transaction must have an amount'')
      else (case amount_decimal a of
              Inl e \<Rightarrow> Inl e
            | Inr d \<Rightarrow> check_cents d))"

text \<open>
  \<^verbatim>\<open>_check_txn_date\<close>: a string is split at \<^verbatim>\<open>-\<close> into exactly three fields, each
  read by \<^verbatim>\<open>int()\<close>; only \<^verbatim>\<open>ValueError\<close> is caught.
\<close>

definition date_of_fields :: "string \<Rightarrow> string \<Rightarrow> string \<Rightarrow> error + date" where
  "date_of_fields y m d =
     (case py_int y of
        None \<Rightarrow> Inl ValueError
      | Some yi \<Rightarrow>
          (case py_int m of
             None \<Rightarrow> Inl ValueError
           | Some mi \<Rightarrow>
               (case py_int d of
                  None \<Rightarrow> Inl ValueError
                | Some di \<Rightarrow> mk_date yi mi di)))"

definition date_of_string :: "string \<Rightarrow> error + date" where
  "date_of_string s =
     (case split_on CHR ''-'' s of
        [y, m, d] \<Rightarrow> date_of_fields y m d
      | _ \<Rightarrow> Inl ValueError)"

definition check_txn_date :: "pyval \<Rightarrow> error + date" where
  "check_txn_date v =
     (if \<not> truthy v then Inl (InvalidTransactionError ''transaction must have a txn_date'')
      else (case v of
              PyDate d \<Rightarrow> Inr d
            | PyStr s \<Rightarrow>
                (case date_of_string s of
                   Inl ValueError \<Rightarrow> Inl (InvalidTransactionError ''invalid txn_date'')
                 | Inl e \<Rightarrow> Inl e
                 | Inr d \<Rightarrow> Inr d)
            | _ \<Rightarrow> Inl (InvalidTransactionError ''invalid type for txn_date'')))"

text \<open>
  The loop of \<^verbatim>\<open>_check_categories\<close>, with the running tot and the list built so
  far, and the comparison after it.
\<close>

fun categories_loop ::
  "decimal \<Rightarrow> category_input list \<Rightarrow> decimal \<Rightarrow> (category \<times> decimal) list
     \<Rightarrow> error + (decimal \<times> (category \<times> decimal) list)" where
  "categories_loop amt [] tot cs = Inr (tot, cs)"
| "categories_loop amt (CatTuple c a # rest) tot cs =
     (case dec_add tot a of
        Inl e \<Rightarrow> Inl e
      | Inr t \<Rightarrow> categories_loop amt rest t (cs @ [(c, a)]))"
| "categories_loop amt (CatOnly c # rest) tot cs =
     (case dec_add tot amt of
        Inl e \<Rightarrow> Inl e
      | Inr t \<Rightarrow> categories_loop amt rest t (cs @ [(c, amt)]))"
| "categories_loop amt (CatOther # rest) tot cs = categories_loop amt rest tot cs"

definition exceeds :: "decimal \<Rightarrow> decimal \<Rightarrow> error + bool" where
  "exceeds tot amt =
     (case dec_abs tot of
        Inl e \<Rightarrow> Inl e
      | Inr at \<Rightarrow>
          (case dec_abs amt of
             Inl e \<Rightarrow> Inl e
           | Inr aa \<Rightarrow> dec_gt at aa))"

definition check_categories ::
  "decimal \<Rightarrow> category_input list option \<Rightarrow> error + (category \<times> decimal) list" where
  "check_categories amt input_categories =
     (case categories_loop amt (case input_categories of None \<Rightarrow> [] | Some l \<Rightarrow> l)
             (Finite False 0 0) [] of
        Inl e \<Rightarrow> Inl e
      | Inr (tot, cs) \<Rightarrow>
          (case exceeds tot amt of
             Inl e \<Rightarrow> Inl e
           | Inr True \<Rightarrow> Inl (InvalidTransactionError ''split categories add up to more than txn amount'')
           | Inr False \<Rightarrow> Inr cs))"

text \<open>\<^verbatim>\<open>Transaction.__init__\<close>: the checks run in the order of the source.\<close>

definition Transaction_init ::
  "account option \<Rightarrow> pyval \<Rightarrow> pyval \<Rightarrow> string option \<Rightarrow> category_input list option
     \<Rightarrow> string option \<Rightarrow> string option \<Rightarrow> string option \<Rightarrow> nat option \<Rightarrow> error + transaction" where
  "Transaction_init acc amt dt ty cats p descr st i =
     (case check_account acc of
        Inl e \<Rightarrow> Inl e
      | Inr a \<Rightarrow>
     (case check_amount amt of
        Inl e \<Rightarrow> Inl e
      | Inr am \<Rightarrow>
     (case check_txn_date dt of
        Inl e \<Rightarrow> Inl e
      | Inr d \<Rightarrow>
     (case check_categories am cats of
        Inl e \<Rightarrow> Inl e
      | Inr cs \<Rightarrow>
          Inr \<lparr> account = a, amount = am, txn_date = d, txn_type = ty, categories = cs,
                payee = p, description = descr, status = st, txn_id = i \<rparr>))))"

text \<open>
  \<^verbatim>\<open>Transaction.update_values\<close> assigns field after field, so an exception leaves the
  earlier assignments in place: the result is the object as it is left, with the
  exception if one was raised.
\<close>

definition update_values ::
  "transaction \<Rightarrow> pyval \<Rightarrow> pyval \<Rightarrow> string option \<Rightarrow> category_input list option
     \<Rightarrow> string option \<Rightarrow> string option \<Rightarrow> string option \<Rightarrow> error option \<times> transaction" where
  "update_values t amt dt ty cats p descr st =
     (case (if amt \<noteq> PyNone then check_amount amt else Inr (amount t)) of
        Inl e \<Rightarrow> (Some e, t)
      | Inr am \<Rightarrow>
     (let t1 = t\<lparr>amount := am\<rparr> in
      case (if dt \<noteq> PyNone then check_txn_date dt else Inr (txn_date t1)) of
        Inl e \<Rightarrow> (Some e, t1)
      | Inr d \<Rightarrow>
     (let t2 = t1\<lparr>txn_date := d\<rparr>;
          t3 = (case ty of None \<Rightarrow> t2 | Some x \<Rightarrow> t2\<lparr>txn_type := Some x\<rparr>) in
      case (case cats of None \<Rightarrow> Inr (categories t3) | Some l \<Rightarrow> check_categories (amount t3) (Some l)) of
        Inl e \<Rightarrow> (Some e, t3)
      | Inr cs \<Rightarrow>
     (let t4 = t3\<lparr>categories := cs\<rparr>;
          t5 = (case p of None \<Rightarrow> t4 | Some x \<Rightarrow> t4\<lparr>payee := Some x\<rparr>);
          t6 = (case descr of None \<Rightarrow> t5 | Some x \<Rightarrow> t5\<lparr>description := Some x\<rparr>);
          t7 = (case st of None \<Rightarrow> t6 | Some x \<Rightarrow> t6\<lparr>status := Some x\<rparr>)
      in (None, t7)))))"



section \<open>Ledger\<close>

record ledger =
  txns :: "transaction list"
  ledger_starting_balance :: decimal

record ledger_record =
  txn :: transaction
  balance :: decimal


definition add_transaction :: "ledger \<Rightarrow> transaction \<Rightarrow> ledger" where
  "add_transaction l t = l\<lparr>txns := txns l @ [t]\<rparr>"

definition clear_txns :: "ledger \<Rightarrow> ledger" where
  "clear_txns l = l\<lparr>txns := []\<rparr>"




section \<open>Budget\<close>

record budget =
  budget_year :: pyval
  info :: "(category \<times> decimal) list"
  budget_id :: "nat option"

text \<open>
  \<^verbatim>\<open>Budget.__init__(year, info, id_)\<close>: both \<^verbatim>\<open>year\<close> and \<^verbatim>\<open>info\<close> must be
  true values; an empty list of category info is not.
\<close>

definition Budget_init ::
  "pyval \<Rightarrow> (category \<times> decimal) list option \<Rightarrow> nat option \<Rightarrow> error + budget" where
  "Budget_init y cinfo i =
     (if \<not> truthy y then Inl (BudgetError ''must pass in year to Budget'')
      else (case cinfo of
              None \<Rightarrow> Inl (BudgetError ''must pass in category info to Budget'')
            | Some l \<Rightarrow>
                (if l = [] then Inl (BudgetError ''must pass in category info to Budget'')
                 else Inr \<lparr> budget_year = y, info = l, budget_id = i \<rparr>)))"

section \<open>Date strings named by the specification\<close>

text \<open>
  The two string formats of dates the specification names, as inputs to
  \<^verbatim>\<open>_check_txn_date\<close>: ISO \<^verbatim>\<open>YYYY-MM-DD\<close> (what \<^verbatim>\<open>date.isoformat()\<close> prints) and
  US \<^verbatim>\<open>M/D/YYYY\<close>.
\<close>

definition pad4 :: "nat \<Rightarrow> string" where
  "pad4 n = replicate (4 - length (digits_of n)) CHR ''0'' @ digits_of n"

definition iso_date_str :: "date \<Rightarrow> string" where
  "iso_date_str d = pad4 (year d) @ CHR ''-'' # pad2 (month d) @ CHR ''-'' # pad2 (day d)"

definition us_date_str :: "date \<Rightarrow> string" where
  "us_date_str d = digits_of (month d) @ CHR ''/'' # digits_of (day d) @ CHR ''/'' # digits_of (year d)"

section \<open>Example data\<close>

text \<open>
  The transaction that \<^verbatim>\<open>Transaction(account=acc, amount=a, txn_date=d)\<close> builds, and
  the account used in the examples.
\<close>

definition plain_txn :: "account \<Rightarrow> date \<Rightarrow> decimal \<Rightarrow> transaction" where
  "plain_txn acc d a =
     \<lparr> account = acc, amount = a, txn_date = d, txn_type = None, categories = [],
       payee = None, description = None, status = None, txn_id = None \<rparr>"



section \<open>SQLiteStorage\<close>

text \<open>
  The database is the six tables of \<^verbatim>\<open>_setup_db\<close>, each a list of rows in the order
  of their rowids; a row is the tuple of its columns, the \<^verbatim>\<open>INTEGER PRIMARY KEY\<close>
  first. A column that may hold \<^verbatim>\<open>NULL\<close> is an option. The schema declares no foreign
  key and no trigger. A new row gets the largest rowid of its table plus one
  (\<^verbatim>\<open>lastrowid\<close>).
\<close>

type_synonym account_row = "nat \<times> string \<times> string"
type_synonym category_row = "nat \<times> string"
type_synonym txn_row =
  "nat \<times> nat option \<times> string option \<times> string \<times> string option \<times> string \<times> string option \<times> string option"
type_synonym split_row = "nat \<times> nat \<times> nat option \<times> string"
type_synonym budget_row = "nat \<times> string option"
type_synonym budget_value_row = "nat \<times> nat \<times> nat option \<times> string"

record db =
  tbl_accounts :: "account_row list"
  tbl_budgets :: "budget_row list"
  tbl_budget_values :: "budget_value_row list"
  tbl_categories :: "category_row list"
  tbl_transactions :: "txn_row list"
  tbl_txn_categories :: "split_row list"

definition setup_db :: db where
  "setup_db = \<lparr> tbl_accounts = [], tbl_budgets = [], tbl_budget_values = [],
                tbl_categories = [], tbl_transactions = [], tbl_txn_categories = [] \<rparr>"

definition lastrowid :: "(nat \<times> 'a) list \<Rightarrow> nat" where
  "lastrowid rows = Suc (foldr max (map fst rows) 0)"

text \<open>\<^verbatim>\<open>SELECT ... WHERE id = ?\<close> with \<^verbatim>\<open>fetchone()\<close>: the first row of that id.\<close>

definition select_by_id :: "(nat \<times> 'a) list \<Rightarrow> nat option \<Rightarrow> (nat \<times> 'a) option" where
  "select_by_id rows i = (case i of None \<Rightarrow> None | Some k \<Rightarrow> find (\<lambda>r. fst r = k) rows)"

text \<open>An id that is a true value: set and not 0.\<close>

definition id_set :: "nat option \<Rightarrow> bool" where
  "id_set i = (case i of None \<Rightarrow> False | Some k \<Rightarrow> k \<noteq> 0)"

definition get_account :: "db \<Rightarrow> nat option \<Rightarrow> error + account" where
  "get_account d account_id =
     (case select_by_id (tbl_accounts d) account_id of
        None \<Rightarrow> Inl TypeError
      | Some (i, name, bal) \<Rightarrow>
          (case Decimal_of_str bal of
             None \<Rightarrow> Inl InvalidOperation
           | Some b \<Rightarrow> Inr \<lparr> acc_id = Some i, acc_name = name, starting_balance = b \<rparr>))"

definition save_account :: "db \<Rightarrow> account \<Rightarrow> db \<times> account" where
  "save_account d a =
     (let i = lastrowid (tbl_accounts d)
      in (d\<lparr>tbl_accounts := tbl_accounts d @ [(i, acc_name a, dec_str (starting_balance a))]\<rparr>,
          a\<lparr>acc_id := Some i\<rparr>))"

definition get_category :: "db \<Rightarrow> nat option \<Rightarrow> error + category" where
  "get_category d category_id =
     (case select_by_id (tbl_categories d) category_id of
        None \<Rightarrow> Inl TypeError
      | Some (i, name) \<Rightarrow> Inr \<lparr> cat_name = name, cat_id = Some i \<rparr>)"

definition save_category :: "db \<Rightarrow> category \<Rightarrow> db \<times> category" where
  "save_category d c =
     (if id_set (cat_id c)
      then (d\<lparr>tbl_categories :=
                map (\<lambda>r. if Some (fst r) = cat_id c then (fst r, cat_name c) else r) (tbl_categories d)\<rparr>, c)
      else (let i = lastrowid (tbl_categories d)
            in (d\<lparr>tbl_categories := tbl_categories d @ [(i, cat_name c)]\<rparr>, c\<lparr>cat_id := Some i\<rparr>)))"

text \<open>
  The category rows of a transaction, read back one by one: the first failing lookup or
  conversion raises.
\<close>

fun categories_from_rows :: "db \<Rightarrow> split_row list \<Rightarrow> error + category_input list" where
  "categories_from_rows d [] = Inr []"
| "categories_from_rows d ((i, t, c, a) # rest) =
     (case get_category d c of
        Inl e \<Rightarrow> Inl e
      | Inr cat \<Rightarrow>
          (case Decimal_of_str a of
             None \<Rightarrow> Inl InvalidOperation
           | Some amt \<Rightarrow>
               (case categories_from_rows d rest of
                  Inl e \<Rightarrow> Inl e
                | Inr cs \<Rightarrow> Inr (CatTuple cat amt # cs))))"

text \<open>
  \<^verbatim>\<open>_txn_from_db_record\<close>: nothing is caught here, so a malformed date string raises
  \<^verbatim>\<open>ValueError\<close> and a malformed amount \<^verbatim>\<open>InvalidOperation\<close>.
\<close>

definition txn_from_db_record :: "db \<Rightarrow> txn_row option \<Rightarrow> error + transaction" where
  "txn_from_db_record d db_info =
     (case db_info of
        None \<Rightarrow> Inl (InvalidTransactionError ''no db_info to construct transaction'')
      | Some (i, account_id, ty, date_str, p, amount_str, descr, st) \<Rightarrow>
     (case date_of_string date_str of
        Inl e \<Rightarrow> Inl e
      | Inr dt \<Rightarrow>
     (case Decimal_of_str amount_str of
        None \<Rightarrow> Inl InvalidOperation
      | Some amt \<Rightarrow>
     (case get_account d account_id of
        Inl e \<Rightarrow> Inl e
      | Inr acc \<Rightarrow>
     (case categories_from_rows d (filter (\<lambda>r. fst (snd r) = i) (tbl_txn_categories d)) of
        Inl e \<Rightarrow> Inl e
      | Inr cats \<Rightarrow>
          Transaction_init (Some acc) (PyDecimal amt) (PyDate dt) ty (Some cats) p descr st (Some i))))))"

text \<open>The inserts of the category rows of a transaction, in the order of its list.\<close>

fun insert_splits :: "split_row list \<Rightarrow> nat \<Rightarrow> (category \<times> decimal) list \<Rightarrow> split_row list" where
  "insert_splits rows t [] = rows"
| "insert_splits rows t ((c, a) # rest) =
     insert_splits (rows @ [(lastrowid rows, t, cat_id c, dec_str a)]) t rest"

text \<open>
  \<^verbatim>\<open>save_txn\<close> in its three steps: the account is saved first when it has no id; the
  row of the transaction is updated when the transaction has an id and inserted otherwise
  (an update of an id that has no row changes nothing); the category rows of the
  transaction are deleted and inserted again.
\<close>

definition save_txn_account :: "db \<Rightarrow> transaction \<Rightarrow> db \<times> transaction" where
  "save_txn_account d t =
     (if \<not> id_set (acc_id (account t))
      then (let (d1, acc) = save_account d (account t) in (d1, t\<lparr>account := acc\<rparr>))
      else (d, t))"

definition txn_columns ::
  "transaction \<Rightarrow> nat option \<times> string option \<times> string \<times> string option \<times> string \<times> string option \<times> string option" where
  "txn_columns t =
     (acc_id (account t), txn_type t, strftime_ymd (txn_date t), payee t, dec_str (amount t),
      description t, status t)"

definition save_txn_row :: "db \<Rightarrow> transaction \<Rightarrow> db \<times> transaction" where
  "save_txn_row d t =
     (if id_set (txn_id t)
      then (d\<lparr>tbl_transactions :=
                map (\<lambda>r. if Some (fst r) = txn_id t then (fst r, txn_columns t) else r)
                  (tbl_transactions d)\<rparr>, t)
      else (let i = lastrowid (tbl_transactions d)
            in (d\<lparr>tbl_transactions := tbl_transactions d @ [(i, txn_columns t)]\<rparr>,
                t\<lparr>txn_id := Some i\<rparr>)))"

definition save_txn_splits :: "db \<Rightarrow> transaction \<Rightarrow> db" where
  "save_txn_splits d t =
     (let kept = filter (\<lambda>r. Some (fst (snd r)) \<noteq> txn_id t) (tbl_txn_categories d)
      in d\<lparr>tbl_txn_categories := insert_splits kept (the (txn_id t)) (categories t)\<rparr>)"

definition save_txn :: "db \<Rightarrow> transaction \<Rightarrow> db \<times> transaction" where
  "save_txn d t =
     (let (d1, t1) = save_txn_account d t;
          (d2, t2) = save_txn_row d1 t1
      in (save_txn_splits d2 t2, t2))"

text \<open>\<^verbatim>\<open>delete_txn\<close> is the single statement \<^verbatim>\<open>DELETE FROM transactions WHERE id = ?\<close>.\<close>

definition delete_txn :: "db \<Rightarrow> nat option \<Rightarrow> db" where
  "delete_txn d i = d\<lparr>tbl_transactions := filter (\<lambda>r. Some (fst r) \<noteq> i) (tbl_transactions d)\<rparr>"

text \<open>\<^verbatim>\<open>load_txns_into_ledger\<close>: the rows of the account, each built and appended.\<close>

fun load_rows :: "db \<Rightarrow> txn_row list \<Rightarrow> ledger \<Rightarrow> error + ledger" where
  "load_rows d [] l = Inr l"
| "load_rows d (r # rest) l =
     (case txn_from_db_record d (Some r) of
        Inl e \<Rightarrow> Inl e
      | Inr t \<Rightarrow> load_rows d rest (add_transaction l t))"

definition load_txns_into_ledger :: "db \<Rightarrow> nat option \<Rightarrow> ledger \<Rightarrow> error + ledger" where
  "load_txns_into_ledger d account_id l =
     (case account_id of
        None \<Rightarrow> Inr l
      | Some a \<Rightarrow> load_rows d (filter (\<lambda>r. fst (snd r) = Some a) (tbl_transactions d)) l)"

text \<open>
  The year of a budget is bound to a \<^verbatim>\<open>TEXT\<close> column: \<^verbatim>\<open>None\<close> is stored as
  \<^verbatim>\<open>NULL\<close>, an integer (a \<^verbatim>\<open>bool\<close> too) as its decimal string, a string as it is,
  a date as its ISO string by the default adapter; an integer beyond 64 bits raises
  \<^verbatim>\<open>OverflowError\<close> and a value of another type \<^verbatim>\<open>sqlite3.ProgrammingError\<close>.
\<close>

fun bind_text :: "pyval \<Rightarrow> error + string option" where
  "bind_text PyNone = Inr None"
| "bind_text (PyBool b) = Inr (Some (if b then ''1'' else ''0''))"
| "bind_text (PyInt i) =
     (if - 9223372036854775808 \<le> i \<and> i \<le> 9223372036854775807 then Inr (Some (int_str i))
      else Inl OverflowError)"
| "bind_text (PyStr s) = Inr (Some s)"
| "bind_text (PyDate d) = Inr (Some (iso_date_str d))"
| "bind_text _ = Inl ProgrammingError"

fun insert_budget_values ::
  "budget_value_row list \<Rightarrow> nat \<Rightarrow> (category \<times> decimal) list \<Rightarrow> budget_value_row list" where
  "insert_budget_values rows b [] = rows"
| "insert_budget_values rows b ((c, a) # rest) =
     insert_budget_values (rows @ [(lastrowid rows, b, cat_id c, dec_str a)]) b rest"

definition save_budget :: "db \<Rightarrow> budget \<Rightarrow> error + db \<times> budget" where
  "save_budget d b =
     (if id_set (budget_id b)
      then (let kept = filter (\<lambda>r. Some (fst (snd r)) \<noteq> budget_id b) (tbl_budget_values d)
            in Inr (d\<lparr>tbl_budget_values := insert_budget_values kept (the (budget_id b)) (info b)\<rparr>, b))
      else (case bind_text (budget_year b) of
              Inl e \<Rightarrow> Inl e
            | Inr y \<Rightarrow>
                (let i = lastrowid (tbl_budgets d);
                     d1 = d\<lparr>tbl_budgets := tbl_budgets d @ [(i, y)]\<rparr>
                 in Inr (d1\<lparr>tbl_budget_values := insert_budget_values (tbl_budget_values d1) i (info b)\<rparr>,
                         b\<lparr>budget_id := Some i\<rparr>))))"

fun budget_info_from_rows :: "db \<Rightarrow> budget_value_row list \<Rightarrow> error + (category \<times> decimal) list" where
  "budget_info_from_rows d [] = Inr []"
| "budget_info_from_rows d ((i, b, c, a) # rest) =
     (case get_category d c of
        Inl e \<Rightarrow> Inl e
      | Inr cat \<Rightarrow>
          (case Decimal_of_str a of
             None \<Rightarrow> Inl InvalidOperation
           | Some amt \<Rightarrow>
               (case budget_info_from_rows d rest of
                  Inl e \<Rightarrow> Inl e
                | Inr cs \<Rightarrow> Inr ((cat, amt) # cs))))"

text \<open>
  \<^verbatim>\<open>get_budget\<close>: \<^verbatim>\<open>records[0][0]\<close> raises \<^verbatim>\<open>IndexError\<close> when no budget has the
  id, \<^verbatim>\<open>int()\<close> raises \<^verbatim>\<open>TypeError\<close> on \<^verbatim>\<open>NULL\<close> and \<^verbatim>\<open>ValueError\<close> on a
  year that is no integer literal; the budget is built without its id.
\<close>

definition get_budget :: "db \<Rightarrow> nat \<Rightarrow> error + budget" where
  "get_budget d bid =
     (case filter (\<lambda>r. fst r = bid) (tbl_budgets d) of
        [] \<Rightarrow> Inl IndexError
      | (i, y) # rest \<Rightarrow>
          (case (case y of None \<Rightarrow> Inl TypeError
                 | Some ys \<Rightarrow> (case py_int ys of None \<Rightarrow> Inl ValueError | Some yr \<Rightarrow> Inr yr)) of
             Inl e \<Rightarrow> Inl e
           | Inr yr \<Rightarrow>
               (case budget_info_from_rows d
                       (filter (\<lambda>r. fst (snd r) = bid) (tbl_budget_values d)) of
                  Inl e \<Rightarrow> Inl e
                | Inr binfo \<Rightarrow> Budget_init (PyInt yr) (Some binfo) None)))"

text \<open>
  \<^verbatim>\<open>get_budgets\<close>: the loop runs once for each budget record, and each time reads the
  id of the first record, \<^verbatim>\<open>budget_records[0][0]\<close>.
\<close>

fun budgets_loop :: "db \<Rightarrow> budget_row list \<Rightarrow> budget_row list \<Rightarrow> budget list \<Rightarrow> error + budget list" where
  "budgets_loop d budget_records [] acc = Inr acc"
| "budgets_loop d budget_records (budget_record # rest) acc =
     (case budget_records of
        [] \<Rightarrow> Inl IndexError
      | first # others \<Rightarrow>
          (case get_budget d (fst first) of
             Inl e \<Rightarrow> Inl e
           | Inr b \<Rightarrow> budgets_loop d budget_records rest (acc @ [b])))"

definition get_budgets :: "db \<Rightarrow> error + budget list" where
  "get_budgets d = budgets_loop d (tbl_budgets d) (tbl_budgets d) []"

section \<open>Example databases\<close>

text \<open>
  A database with the category Food and two budgets saved one after the other: 2018 with
  35 for Food, 2019 with 70 for Food.
\<close>

definition two_budgets_db :: db where
  "two_budgets_db =
     (let (d1, food) = save_category setup_db \<lparr> cat_name = ''Food'', cat_id = None \<rparr>
      in case save_budget d1 \<lparr> budget_year = PyInt 2018, info = [(food, Finite False 35 0)],
                               budget_id = None \<rparr> of
           Inl e \<Rightarrow> d1
         | Inr (d2, b1) \<Rightarrow>
             (case save_budget d2 \<lparr> budget_year = PyInt 2019, info = [(food, Finite False 70 0)],
                                    budget_id = None \<rparr> of
                Inl e \<Rightarrow> d2
              | Inr (d3, b2) \<Rightarrow> d3))"

text \<open>
  A database with the category Food and two transactions of a new account Checking saved
  one after the other: 10 on 2017-03-25 with the split (Food, 10), and 20 on 2017-03-28
  with the split (Food, 5).
\<close>

definition two_txns_db :: db where
  "two_txns_db =
     (let (d1, food) = save_category setup_db \<lparr> cat_name = ''Food'', cat_id = None \<rparr>;
          acc = \<lparr> acc_id = None, acc_name = ''Checking'', starting_balance = Finite False 100 0 \<rparr>;
          (d2, t1) = save_txn d1
                       \<lparr> account = acc, amount = Finite False 10 0, txn_date = Date 2017 3 25,
                         txn_type = Some ''BP'', categories = [(food, Finite False 10 0)],
                         payee = Some ''Waffle House'', description = None, status = None,
                         txn_id = None \<rparr>;
          (d3, t2) = save_txn d2
                       \<lparr> account = account t1, amount = Finite False 20 0, txn_date = Date 2017 3 28,
                         txn_type = None, categories = [(food, Finite False 5 0)],
                         payee = Some ''Subway'', description = None, status = None,
                         txn_id = None \<rparr>
      in d3)"

section \<open>Reading a transaction back by its id\<close>






definition food :: category where
  "food = snd (save_category setup_db \<lparr> cat_name = ''Food'', cat_id = None \<rparr>)"


section \<open>Date increments\<close>

text \<open>
  Modelled from the spec: \<^verbatim>\<open>increment_month\<close> is missing from the sources (only the
  tests in \<^verbatim>\<open>src/tests.py\<close> call it). It advances a date by one calendar month and
  clamps the day of the month to the last valid day of the target month.
\<close>

definition increment_month :: "date \<Rightarrow> date" where
  "increment_month d =
     (let y = (if month d = 12 then year d + 1 else year d);
          m = (if month d = 12 then 1 else month d + 1)
      in Date y m (min (day d) (days_in_month y m)))"

text \<open>
  Modelled from the spec: \<^verbatim>\<open>increment_quarter\<close> is missing from the sources too. This
  definition follows the words of the specification: three applications of
  \<^verbatim>\<open>increment_month\<close>.
\<close>

definition increment_quarter_spec :: "date \<Rightarrow> date" where
  "increment_quarter_spec d = increment_month (increment_month (increment_month d))"

text \<open>
  Modelled from the spec: \<^verbatim>\<open>increment_quarter\<close> as the examples of the specification
  and the assertions of \<^verbatim>\<open>test_increment_quarter\<close> in \<^verbatim>\<open>src/tests.py\<close> have it:
  the date three calendar months later, the day of the month clamped once, to the last
  valid day of the target month.
\<close>

definition increment_quarter :: "date \<Rightarrow> date" where
  "increment_quarter d =
     (let y = (if month d + 3 > 12 then year d + 1 else year d);
          m = (if month d + 3 > 12 then month d + 3 - 12 else month d + 3)
      in Date y m (min (day d) (days_in_month y m)))"

section \<open>Digits and integer literals\<close>

lemma digit_val_digit_char: "d < 10 \<Longrightarrow> digit_val (digit_char d) = d"
  by (simp add: digit_val_def digit_char_def)

lemma is_digit_digit_char: "is_digit (digit_char d)"
  by (simp add: is_digit_def digit_char_def)

lemma digits_of_all_digits: "list_all is_digit (digits_of n)"
proof (induction n rule: digits_of.induct)
  case (1 n)
  show ?case
  proof (cases "n < 10")
    case True
    then show ?thesis by (subst digits_of.simps) (simp add: is_digit_digit_char)
  next
    case False
    with 1 show ?thesis by (subst digits_of.simps) (simp add: is_digit_digit_char)
  qed
qed

lemma digits_of_nonempty: "digits_of n \<noteq> []"
  by (subst digits_of.simps) simp

lemma nat_of_digits_snoc: "nat_of_digits (xs @ [c]) = 10 * nat_of_digits xs + digit_val c"
  by (simp add: nat_of_digits_def)

lemma nat_of_digits_digits_of: "nat_of_digits (digits_of n) = n"
proof (induction n rule: digits_of.induct)
  case (1 n)
  show ?case
  proof (cases "n < 10")
    case True
    then show ?thesis
      by (subst digits_of.simps) (simp add: nat_of_digits_def digit_val_digit_char)
  next
    case False
    then have "nat_of_digits (digits_of (n div 10)) = n div 10" using 1 by simp
    with False show ?thesis
      by (subst digits_of.simps) (simp add: nat_of_digits_snoc digit_val_digit_char)
  qed
qed

lemma foldl_digits_zeros:
  "foldl (\<lambda>a c. 10 * a + digit_val c) 0 (replicate k CHR ''0'') = 0"
  by (induction k) (simp_all add: digit_val_def)

lemma nat_of_digits_zeros: "nat_of_digits (replicate k CHR ''0'' @ xs) = nat_of_digits xs"
  by (simp add: nat_of_digits_def foldl_digits_zeros)

lemma nat_of_digits_zero_cons: "nat_of_digits (CHR ''0'' # xs) = nat_of_digits xs"
  using nat_of_digits_zeros [of 1 xs] by simp

lemma is_digit_not_special:
  "is_digit c \<Longrightarrow> c \<noteq> CHR ''-'' \<and> c \<noteq> CHR ''+'' \<and> c \<noteq> CHR ''_'' \<and> c \<noteq> CHR ''.''
     \<and> c \<noteq> CHR ''/'' \<and> c \<noteq> CHR ''E'' \<and> c \<noteq> CHR ''e'' \<and> \<not> is_space c \<and> \<not> is_int_space c"
  by (auto simp: is_digit_def is_space_def is_int_space_def)

lemma strip_with_id:
  "s \<noteq> [] \<Longrightarrow> \<not> sp (hd s) \<Longrightarrow> \<not> sp (last s) \<Longrightarrow> strip_with sp s = s"
proof -
  assume ne: "s \<noteq> []" and h: "\<not> sp (hd s)" and l: "\<not> sp (last s)"
  from ne h have a: "dropWhile sp s = s" by (cases s) simp_all
  from ne l have "dropWhile sp (rev s) = rev s" by (cases "rev s") (simp_all add: hd_rev)
  with a show ?thesis by (simp add: strip_with_def)
qed

lemma int_body_ok_digits: "s \<noteq> [] \<Longrightarrow> list_all is_digit s \<Longrightarrow> int_body_ok s"
  by (induction s rule: int_body_ok.induct) simp_all

lemma filter_digits_id: "list_all is_digit s \<Longrightarrow> filter (\<lambda>c. c \<noteq> CHR ''_'') s = s"
  by (induction s) (auto dest: is_digit_not_special)

lemma py_int_digits:
  assumes "s \<noteq> []" "list_all is_digit s"
  shows "py_int s = Some (int (nat_of_digits s))"
proof -
  from assms obtain c r where s: "s = c # r" by (cases s) auto
  from assms s have c: "is_digit c" by simp
  from assms have "is_digit (last s)" by (simp add: list_all_iff)
  with assms c s have strip: "strip_with is_int_space s = s"
    by (intro strip_with_id) (auto dest: is_digit_not_special)
  from c have nosign: "c \<noteq> CHR ''-''" "c \<noteq> CHR ''+''" using is_digit_not_special by blast+
  have ok: "int_literal_ok s"
    using assms s c by (simp add: int_literal_ok_def int_body_ok_digits)
  have neg: "(case s of c # _ \<Rightarrow> c = CHR ''-'' | [] \<Rightarrow> False) = False"
    using s nosign by simp
  have body: "(case s of c # r \<Rightarrow> (if c = CHR ''-'' \<or> c = CHR ''+'' then r else s) | [] \<Rightarrow> []) = s"
    using s nosign by simp
  have f: "filter (\<lambda>c. c \<noteq> CHR ''_'') s = s"
    using assms by (simp add: filter_digits_id)
  show ?thesis
    by (simp add: py_int_def Let_def strip neg body ok f)
qed


lemma pad2_digits: "pad2 n \<noteq> [] \<and> list_all is_digit (pad2 n) \<and> nat_of_digits (pad2 n) = n"
  by (simp add: pad2_def digits_of_nonempty digits_of_all_digits nat_of_digits_digits_of
      nat_of_digits_zero_cons is_digit_def)

lemma py_int_pad2: "py_int (pad2 n) = Some (int n)"
  using pad2_digits [of n] by (simp add: py_int_digits)

section \<open>Date strings\<close>

lemma split_on_no_sep: "sep \<notin> set s \<Longrightarrow> split_on sep s = [s]"
  by (induction s) auto

lemma split_on_append_sep:
  "sep \<notin> set a \<Longrightarrow> split_on sep (a @ sep # b) = a # split_on sep b"
  by (induction a) auto

lemma no_dash_digits: "list_all is_digit s \<Longrightarrow> CHR ''-'' \<notin> set s"
  by (auto simp: list_all_iff is_digit_def)

lemma zeros_all_digits: "list_all is_digit (replicate k CHR ''0'')"
  by (induction k) (simp_all add: is_digit_def)

lemma pad4_digits: "pad4 n \<noteq> [] \<and> list_all is_digit (pad4 n) \<and> nat_of_digits (pad4 n) = n"
  by (simp add: pad4_def digits_of_nonempty digits_of_all_digits nat_of_digits_digits_of
      nat_of_digits_zeros zeros_all_digits)

lemma py_int_pad4: "py_int (pad4 n) = Some (int n)"
  using pad4_digits [of n] by (simp add: py_int_digits)

lemma split_iso:
  "split_on CHR ''-'' (iso_date_str d) = [pad4 (year d), pad2 (month d), pad2 (day d)]"
proof -
  have a: "CHR ''-'' \<notin> set (pad4 (year d))"
    using pad4_digits by (simp add: no_dash_digits)
  have b: "CHR ''-'' \<notin> set (pad2 (month d))"
    using pad2_digits by (simp add: no_dash_digits)
  have c: "CHR ''-'' \<notin> set (pad2 (day d))"
    using pad2_digits by (simp add: no_dash_digits)
  show ?thesis
    by (simp add: iso_date_str_def split_on_append_sep a b c split_on_no_sep)
qed

lemma days_in_month_le: "days_in_month y m \<le> 31"
  by (simp add: days_in_month_def)

lemma mk_date_valid:
  assumes "valid_date d"
  shows "mk_date (int (year d)) (int (month d)) (int (day d)) = Inr d"
proof -
  have "day d \<le> 31"
    using assms days_in_month_le [of "year d" "month d"] by (simp add: valid_date_def)
  then show ?thesis
    using assms by (cases d) (simp add: valid_date_def mk_date_def c_int_def)
qed

lemma date_of_string_iso: "valid_date d \<Longrightarrow> date_of_string (iso_date_str d) = Inr d"
  by (simp add: date_of_string_def split_iso date_of_fields_def py_int_pad4 py_int_pad2 mk_date_valid)

lemma us_no_dash: "CHR ''-'' \<notin> set (us_date_str d)"
  by (simp add: us_date_str_def no_dash_digits digits_of_all_digits)

lemma date_of_string_no_dash: "CHR ''-'' \<notin> set s \<Longrightarrow> date_of_string s = Inl ValueError"
  by (simp add: date_of_string_def split_on_no_sep)

lemma mk_date_Inr:
  "(mk_date y m dd = Inr d) = (y = int (year d) \<and> m = int (month d) \<and> dd = int (day d) \<and> valid_date d)"
proof
  assume "mk_date y m dd = Inr d"
  then have r: "1 \<le> y" "y \<le> 9999" "1 \<le> m" "m \<le> 12" "1 \<le> dd"
      "dd \<le> int (days_in_month (nat y) (nat m))" and d: "d = Date (nat y) (nat m) (nat dd)"
    by (simp_all add: mk_date_def split: if_splits)
  from r have "nat dd \<le> days_in_month (nat y) (nat m)" by linarith
  with r d show "y = int (year d) \<and> m = int (month d) \<and> dd = int (day d) \<and> valid_date d"
    by (simp add: valid_date_def) linarith
next
  assume "y = int (year d) \<and> m = int (month d) \<and> dd = int (day d) \<and> valid_date d"
  then show "mk_date y m dd = Inr d" by (simp add: mk_date_valid)
qed

lemma date_of_string_Inr:
  "(date_of_string s = Inr d) =
     (\<exists>a b c. split_on CHR ''-'' s = [a, b, c] \<and> py_int a = Some (int (year d))
        \<and> py_int b = Some (int (month d)) \<and> py_int c = Some (int (day d)) \<and> valid_date d)"
  by (auto simp: date_of_string_def date_of_fields_def mk_date_Inr split: list.splits option.splits)

lemma mk_date_errors: "mk_date y m dd = Inl e \<Longrightarrow> e = ValueError \<or> e = OverflowError"
  by (simp add: mk_date_def split: if_splits)

lemma date_of_string_errors:
  "date_of_string s = Inl e \<Longrightarrow> e = ValueError \<or> e = OverflowError"
  by (auto simp: date_of_string_def date_of_fields_def dest: mk_date_errors split: list.splits option.splits)

section \<open>Evaluation helpers\<close>

lemma check_categories_none_zero:
  "check_categories (Finite False 0 0) None = Inr []"
  by (simp add: check_categories_def exceeds_def dec_fix_def prec_def aligned_def)

lemma check_amount_str_zero:
  "check_amount (PyStr ''0'') = Inr (Finite False 0 0)"
  by code_simp

lemma check_amount_int_five:
  "check_amount (PyInt 5) = Inr (Finite False 5 0)"
  by code_simp

lemma check_categories_none_five:
  "check_categories (Finite False 5 0) None = Inr []"
  by (simp add: check_categories_def exceeds_def dec_fix_def prec_def aligned_def)

lemma init_five_dated:
  "Transaction_init (Some a) (PyInt 5) (PyDate d) ty None p descr st i
     = Inr \<lparr> account = a, amount = Finite False 5 0, txn_date = d, txn_type = ty,
             categories = [], payee = p, description = descr, status = st, txn_id = i \<rparr>"
  by (simp add: Transaction_init_def check_account_def check_amount_int_five check_txn_date_def
      check_categories_none_five)

section \<open>Transaction construction\<close>

text \<open>
  C10. The amount check does not treat the shapes of zero alike. With an account, an
  accepted date and no categories, the integer 0 and \<^verbatim>\<open>Decimal('0')\<close> are rejected with
  \<^verbatim>\<open>InvalidTransactionError('transaction must have an amount')\<close>, since both are false
  values, while the string \<^verbatim>\<open>'0'\<close> is a true value: it is converted and the
  transaction is built with the amount \<^verbatim>\<open>Decimal('0')\<close>.
\<close>

theorem zero_amount_shapes:
  assumes "check_txn_date dt = Inr d"
  shows "Transaction_init (Some acc) (PyInt 0) dt ty None p descr st i
           = Inl (InvalidTransactionError ''transaction must have an amount'')
       \<and> Transaction_init (Some acc) (PyDecimal (Finite False 0 0)) dt ty None p descr st i
           = Inl (InvalidTransactionError ''transaction must have an amount'')
       \<and> Transaction_init (Some acc) (PyStr ''0'') dt ty None p descr st i
           = Inr \<lparr> account = acc, amount = Finite False 0 0, txn_date = d, txn_type = ty,
                   categories = [], payee = p, description = descr, status = st, txn_id = i \<rparr>"
proof -
  have int0: "check_amount (PyInt 0) = Inl (InvalidTransactionError ''transaction must have an amount'')"
    by (simp add: check_amount_def)
  have dec0: "check_amount (PyDecimal (Finite False 0 0))
                = Inl (InvalidTransactionError ''transaction must have an amount'')"
    by (simp add: check_amount_def)
  show ?thesis
    using assms
    by (simp add: Transaction_init_def check_account_def int0 dec0 check_amount_str_zero
        check_categories_none_zero)
qed

theorem zero_amount_shapes_witness:
  "check_txn_date (PyStr ''2018-03-18'') = Inr (Date 2018 3 18)
   \<and> Transaction_init (Some \<lparr> acc_id = Some 1, acc_name = ''Checking'', starting_balance = Finite False 100 0 \<rparr>)
        (PyInt 0) (PyStr ''2018-03-18'') None None None None None None
        = Inl (InvalidTransactionError ''transaction must have an amount'')
   \<and> Transaction_init (Some \<lparr> acc_id = Some 1, acc_name = ''Checking'', starting_balance = Finite False 100 0 \<rparr>)
        (PyStr ''0'') (PyStr ''2018-03-18'') None None None None None None
        = Inr \<lparr> account = \<lparr> acc_id = Some 1, acc_name = ''Checking'', starting_balance = Finite False 100 0 \<rparr>,
                amount = Finite False 0 0, txn_date = Date 2018 3 18, txn_type = None,
                categories = [], payee = None, description = None, status = None, txn_id = None \<rparr>"
proof -
  have h: "check_txn_date (PyStr ''2018-03-18'') = Inr (Date 2018 3 18)"
    by code_simp
  show ?thesis
    using h zero_amount_shapes [OF h, of "\<lparr> acc_id = Some 1, acc_name = ''Checking'', starting_balance = Finite False 100 0 \<rparr>" None None None None None]
    by simp
qed

text \<open>
  C9 (as the code has it). The status passed to the constructor is stored exactly as it
  was given: it is neither changed to upper case nor checked against \<^verbatim>\<open>'C'\<close> and
  \<^verbatim>\<open>'R'\<close>, and it has no influence on whether construction succeeds. The result for
  any status is the result for no status with the status field set. In
  \<^verbatim>\<open>update_values\<close> a status that is given replaces the stored one unchanged when no
  earlier field raised, and the stored one stays otherwise.
\<close>

theorem status_stored_unchanged:
  "Transaction_init acc amt dt ty cats p descr st i
     = map_sum id (\<lambda>t. t\<lparr>status := st\<rparr>) (Transaction_init acc amt dt ty cats p descr None i)
   \<and> status (snd (update_values t0 amt dt ty cats p descr st))
     = (if fst (update_values t0 amt dt ty cats p descr st) = None
        then (case st of None \<Rightarrow> status t0 | Some s \<Rightarrow> Some s)
        else status t0)"
proof
  show "Transaction_init acc amt dt ty cats p descr st i
     = map_sum id (\<lambda>t. t\<lparr>status := st\<rparr>) (Transaction_init acc amt dt ty cats p descr None i)"
    by (simp add: Transaction_init_def split: sum.splits)
next
  show "status (snd (update_values t0 amt dt ty cats p descr st))
     = (if fst (update_values t0 amt dt ty cats p descr st) = None
        then (case st of None \<Rightarrow> status t0 | Some s \<Rightarrow> Some s)
        else status t0)"
    by (simp add: update_values_def Let_def split: sum.splits option.splits)
qed

theorem status_stored_unchanged_witness:
  "Transaction_init (Some \<lparr> acc_id = Some 1, acc_name = ''Checking'', starting_balance = Finite False 0 0 \<rparr>)
     (PyInt 5) (PyDate (Date 2018 1 1)) None None None None (Some ''c'') None
   = Inr \<lparr> account = \<lparr> acc_id = Some 1, acc_name = ''Checking'', starting_balance = Finite False 0 0 \<rparr>,
           amount = Finite False 5 0, txn_date = Date 2018 1 1, txn_type = None,
           categories = [], payee = None, description = None, status = Some ''c'', txn_id = None \<rparr>"
  using status_stored_unchanged [of "Some \<lparr> acc_id = Some 1, acc_name = ''Checking'', starting_balance = Finite False 0 0 \<rparr>"
      "PyInt 5" "PyDate (Date 2018 1 1)" None None None None "Some ''c''" None]
  by (simp add: init_five_dated)

text \<open>
  The claim as the specification words it fails: the status \<^verbatim>\<open>'d'\<close>, which is neither
  empty nor \<^verbatim>\<open>'C'\<close> nor \<^verbatim>\<open>'R'\<close>, is accepted and stored.
\<close>

theorem status_not_validated_counterexample:
  "Transaction_init (Some \<lparr> acc_id = Some 1, acc_name = ''Checking'', starting_balance = Finite False 0 0 \<rparr>)
     (PyInt 5) (PyDate (Date 2018 1 1)) None None None None (Some ''d'') None
   = Inr \<lparr> account = \<lparr> acc_id = Some 1, acc_name = ''Checking'', starting_balance = Finite False 0 0 \<rparr>,
           amount = Finite False 5 0, txn_date = Date 2018 1 1, txn_type = None,
           categories = [], payee = None, description = None, status = Some ''d'', txn_id = None \<rparr>"
  by (rule init_five_dated)

section \<open>Budget construction\<close>

text \<open>
  C7 (as the code has it). \<^verbatim>\<open>Budget(year, info, id_)\<close> has no parameters for a start
  and an end date and computes no bounds of the year. It succeeds exactly when the year
  is a true value and the category info is a non-empty list, and then keeps the year, the
  info and the id as given; otherwise it fails with \<^verbatim>\<open>BudgetError\<close>.
\<close>

theorem budget_init_year_and_info:
  "Budget_init y cinfo i =
     (if truthy y \<and> cinfo \<noteq> None \<and> cinfo \<noteq> Some []
      then Inr \<lparr> budget_year = y, info = the cinfo, budget_id = i \<rparr>
      else Inl (BudgetError (if truthy y then ''must pass in category info to Budget''
                             else ''must pass in year to Budget'')))"
  by (cases cinfo) (simp_all add: Budget_init_def)

theorem budget_init_year_and_info_witness:
  "Budget_init (PyInt 2018) (Some [(\<lparr> cat_name = ''Food'', cat_id = Some 1 \<rparr>, Finite False 35 0)]) None
     = Inr \<lparr> budget_year = PyInt 2018,
             info = [(\<lparr> cat_name = ''Food'', cat_id = Some 1 \<rparr>, Finite False 35 0)],
             budget_id = None \<rparr>"
  using budget_init_year_and_info [of "PyInt 2018" "Some [(\<lparr> cat_name = ''Food'', cat_id = Some 1 \<rparr>, Finite False 35 0)]" None]
  by simp

text \<open>
  The claim as the specification words it fails: a year alone is not enough, without
  category info the constructor raises.
\<close>

theorem budget_year_alone_counterexample:
  "Budget_init (PyInt 2018) None None = Inl (BudgetError ''must pass in category info to Budget'')"
  by (simp add: Budget_init_def)

section \<open>Date normalization\<close>

lemma date_of_string_not_three:
  assumes "\<not> (\<exists>a b c yi mi di. split_on CHR ''-'' s = [a, b, c] \<and> py_int a = Some yi
              \<and> py_int b = Some mi \<and> py_int c = Some di)"
  shows "date_of_string s = Inl ValueError"
  using assms
  by (auto simp: date_of_string_def date_of_fields_def split: list.splits option.splits)

lemma check_txn_date_str:
  "check_txn_date (PyStr s) =
     (if s = [] then Inl (InvalidTransactionError ''transaction must have a txn_date'')
      else (case date_of_string s of
              Inl ValueError \<Rightarrow> Inl (InvalidTransactionError ''invalid txn_date'')
            | Inl e \<Rightarrow> Inl e
            | Inr d \<Rightarrow> Inr d))"
  by (simp add: check_txn_date_def)

lemma date_of_string_empty: "date_of_string [] = Inl ValueError"
  by (simp add: date_of_string_def)

lemma iso_nonempty: "iso_date_str d \<noteq> []"
  by (simp add: iso_date_str_def)

lemma us_nonempty: "us_date_str d \<noteq> []"
  by (simp add: us_date_str_def)

text \<open>
  C8 (as the code has it). \<^verbatim>\<open>_check_txn_date\<close> returns a date-typed value unchanged
  and reads a string of three fields separated by \<^verbatim>\<open>-\<close>, each an integer literal,
  that name a valid calendar date (so every ISO string \<^verbatim>\<open>YYYY-MM-DD\<close> of a valid date).
  A US string \<^verbatim>\<open>M/D/YYYY\<close> is not read: it is rejected with
  \<^verbatim>\<open>InvalidTransactionError('invalid txn_date')\<close>, as is every string that does not
  split into three integer fields; a value that is neither a date nor a string is
  rejected with \<^verbatim>\<open>InvalidTransactionError\<close> too.
\<close>

theorem check_txn_date_normalization:
  "check_txn_date (PyDate d) = Inr d
   \<and> (valid_date d \<longrightarrow> check_txn_date (PyStr (iso_date_str d)) = Inr d)
   \<and> ((check_txn_date (PyStr s) = Inr d) =
        (\<exists>a b c. split_on CHR ''-'' s = [a, b, c] \<and> py_int a = Some (int (year d))
           \<and> py_int b = Some (int (month d)) \<and> py_int c = Some (int (day d)) \<and> valid_date d))
   \<and> check_txn_date (PyStr (us_date_str d)) = Inl (InvalidTransactionError ''invalid txn_date'')
   \<and> (\<not> (\<exists>a b c yi mi di. split_on CHR ''-'' s = [a, b, c] \<and> py_int a = Some yi
              \<and> py_int b = Some mi \<and> py_int c = Some di)
        \<longrightarrow> (\<exists>msg. check_txn_date (PyStr s) = Inl (InvalidTransactionError msg)))
   \<and> ((\<forall>d'. v \<noteq> PyDate d') \<and> (\<forall>s'. v \<noteq> PyStr s')
        \<longrightarrow> (\<exists>msg. check_txn_date v = Inl (InvalidTransactionError msg)))"
proof (intro conjI impI)
  show "check_txn_date (PyDate d) = Inr d"
    by (simp add: check_txn_date_def)
next
  assume "valid_date d"
  then show "check_txn_date (PyStr (iso_date_str d)) = Inr d"
    by (simp add: check_txn_date_str iso_nonempty date_of_string_iso)
next
  show "(check_txn_date (PyStr s) = Inr d) =
        (\<exists>a b c. split_on CHR ''-'' s = [a, b, c] \<and> py_int a = Some (int (year d))
           \<and> py_int b = Some (int (month d)) \<and> py_int c = Some (int (day d)) \<and> valid_date d)"
  proof (cases "s = []")
    case True
    then show ?thesis by (simp add: check_txn_date_str)
  next
    case False
    then have "(check_txn_date (PyStr s) = Inr d) = (date_of_string s = Inr d)"
      by (simp add: check_txn_date_str split: sum.splits error.splits)
    then show ?thesis by (simp add: date_of_string_Inr)
  qed
next
  show "check_txn_date (PyStr (us_date_str d)) = Inl (InvalidTransactionError ''invalid txn_date'')"
    by (simp add: check_txn_date_str us_nonempty date_of_string_no_dash us_no_dash)
next
  assume "\<not> (\<exists>a b c yi mi di. split_on CHR ''-'' s = [a, b, c] \<and> py_int a = Some yi
              \<and> py_int b = Some mi \<and> py_int c = Some di)"
  then have "date_of_string s = Inl ValueError" by (rule date_of_string_not_three)
  then show "\<exists>msg. check_txn_date (PyStr s) = Inl (InvalidTransactionError msg)"
    by (simp add: check_txn_date_str)
next
  assume "(\<forall>d'. v \<noteq> PyDate d') \<and> (\<forall>s'. v \<noteq> PyStr s')"
  then show "\<exists>msg. check_txn_date v = Inl (InvalidTransactionError msg)"
    by (cases v) (simp_all add: check_txn_date_def)
qed

lemma iso_example: "iso_date_str (Date 2018 3 18) = ''2018-03-18''"
  by (simp add: iso_date_str_def pad4_def pad2_def digits_of.simps digit_char_def)

lemma us_example: "us_date_str (Date 2018 3 18) = ''3/18/2018''"
  by (simp add: us_date_str_def digits_of.simps digit_char_def)

lemma valid_example: "valid_date (Date 2018 3 18)"
  by (simp add: valid_date_def days_in_month_def)

theorem check_txn_date_normalization_witness:
  "valid_date (Date 2018 3 18)
   \<and> check_txn_date (PyDate (Date 2018 3 18)) = Inr (Date 2018 3 18)
   \<and> check_txn_date (PyStr ''2018-03-18'') = Inr (Date 2018 3 18)
   \<and> check_txn_date (PyStr ''3/18/2018'') = Inl (InvalidTransactionError ''invalid txn_date'')
   \<and> (\<exists>msg. check_txn_date (PyInt 10) = Inl (InvalidTransactionError msg))"
  using check_txn_date_normalization [of "Date 2018 3 18" "''3/18/2018''" "PyInt 10"]
  by (simp add: iso_example us_example valid_example)

text \<open>
  The claim as the specification words it fails at the US string of 18 March 2018.
\<close>

theorem us_date_rejected_counterexample:
  "check_txn_date (PyStr ''3/18/2018'') = Inl (InvalidTransactionError ''invalid txn_date'')"
  by code_simp

section \<open>The check for fractions of cents\<close>

lemma no_dot_digits: "list_all is_digit s \<Longrightarrow> CHR ''.'' \<notin> set s"
  by (auto simp: list_all_iff is_digit_def)

lemma no_dot_sign: "CHR ''.'' \<notin> set (sign_str s)"
  by (simp add: sign_str_def)

lemma no_dot_exp: "CHR ''.'' \<notin> set (int_str_signed x)"
  by (simp add: int_str_signed_def no_dot_digits digits_of_all_digits)

lemma length_int_str_signed: "length (int_str_signed x) \<ge> 2"
  using digits_of_nonempty [of "nat x"] digits_of_nonempty [of "nat (- x)"]
  by (cases "digits_of (nat x)"; cases "digits_of (nat (- x))") (simp_all add: int_str_signed_def)

lemma fraction_check_no_dot: "CHR ''.'' \<notin> set str \<Longrightarrow> fraction_check str d = Inr d"
  by (simp add: fraction_check_def)

lemma fraction_check_dot:
  assumes "CHR ''.'' \<notin> set a" "CHR ''.'' \<notin> set b"
  shows "fraction_check (a @ CHR ''.'' # b) d =
           (if length b > 2 then Inl (InvalidTransactionError ''no fractions of cents in a transaction'')
            else Inr d)"
  using assms by (simp add: fraction_check_def split_on_append_sep split_on_no_sep)

lemma check_cents_finite:
  "check_cents (Finite s c e) =
     (if (if e \<le> 0 \<and> e + int (length (digits_of c)) > - 6 then e < - 2
          else length (digits_of c) > 1)
      then Inl (InvalidTransactionError ''no fractions of cents in a transaction'')
      else Inr (Finite s c e))"
proof -
  define ds where "ds = digits_of c"
  define n where "n = length ds"
  have n1: "n \<ge> 1" using digits_of_nonempty [of c] by (cases ds) (simp_all add: ds_def n_def)
  have dd: "CHR ''.'' \<notin> set ds" by (simp add: ds_def no_dot_digits digits_of_all_digits)
  have dtake: "\<And>k. CHR ''.'' \<notin> set (take k ds)" "\<And>k. CHR ''.'' \<notin> set (drop k ds)"
    using dd by (auto dest: in_set_takeD in_set_dropD)
  show ?thesis
  proof (cases "e \<le> 0 \<and> e + int n > - 6")
    case plain: True
    consider (a) "e + int n \<le> 0" | (b) "e + int n \<ge> int n" | (c) "0 < e + int n" "e + int n < int n"
      by linarith
    then show ?thesis
    proof cases
      case a
      have str: "dec_str (Finite s c e)
                  = (sign_str s @ ''0'') @ CHR ''.'' # (replicate (nat (- (e + int n))) CHR ''0'' @ ds)"
        using plain a by (simp add: dec_str_def Let_def ds_def n_def)
      have len: "length (replicate (nat (- (e + int n))) CHR ''0'' @ ds) = nat (- e)"
        using a by (simp add: n_def)
      have "check_cents (Finite s c e) =
              (if nat (- e) > 2 then Inl (InvalidTransactionError ''no fractions of cents in a transaction'')
               else Inr (Finite s c e))"
        unfolding check_cents_def str len [symmetric]
        by (rule fraction_check_dot) (simp_all add: no_dot_sign dd)
      then show ?thesis using plain by (simp add: ds_def n_def; linarith?)
    next
      case b
      then have e0: "e = 0" using plain by simp
      have str: "dec_str (Finite s c e) = sign_str s @ ds"
        using plain e0 by (simp add: dec_str_def Let_def ds_def n_def digits_of_nonempty)
      show ?thesis
        unfolding check_cents_def str using plain e0
        by (simp add: fraction_check_no_dot no_dot_sign dd ds_def [symmetric] n_def [symmetric])
    next
      case c
      have str: "dec_str (Finite s c e)
                  = (sign_str s @ take (nat (e + int n)) ds) @ CHR ''.'' # drop (nat (e + int n)) ds"
        using plain c by (simp add: dec_str_def Let_def ds_def n_def)
      have len: "length (drop (nat (e + int n)) ds) = nat (- e)"
        using c by (simp add: n_def [symmetric]; linarith?)
      have "check_cents (Finite s c e) =
              (if nat (- e) > 2 then Inl (InvalidTransactionError ''no fractions of cents in a transaction'')
               else Inr (Finite s c e))"
        unfolding check_cents_def str len [symmetric]
        by (rule fraction_check_dot) (simp_all add: no_dot_sign dtake)
      then show ?thesis using plain by (simp add: ds_def n_def; linarith?)
    qed
  next
    case sci: False
    then have ne1: "e + int n \<noteq> 1" using n1 by linarith
    show ?thesis
    proof (cases "n > 1")
      case True
      have str: "dec_str (Finite s c e)
                  = (sign_str s @ take 1 ds) @ CHR ''.'' # (drop 1 ds @ CHR ''E'' # int_str_signed (e + int n - 1))"
        using True ne1 by (simp add: dec_str_def Let_def ds_def [symmetric] n_def [symmetric] sci)
      have len: "length (drop 1 ds @ CHR ''E'' # int_str_signed (e + int n - 1)) > 2"
        using True length_int_str_signed [of "e + int n - 1"] by (simp add: n_def)
      have "fraction_check ((sign_str s @ take 1 ds) @ CHR ''.'' # (drop 1 ds @ CHR ''E'' # int_str_signed (e + int n - 1))) (Finite s c e)
             = (if length (drop 1 ds @ CHR ''E'' # int_str_signed (e + int n - 1)) > 2
                then Inl (InvalidTransactionError ''no fractions of cents in a transaction'')
                else Inr (Finite s c e))"
        by (rule fraction_check_dot) (simp_all add: no_dot_sign dtake no_dot_exp)
      with len have "check_cents (Finite s c e) = Inl (InvalidTransactionError ''no fractions of cents in a transaction'')"
        unfolding check_cents_def str by (simp only: if_True)
      then show ?thesis using True by (simp add: ds_def [symmetric] n_def [symmetric] sci)
    next
      case False
      then have n_eq: "n = 1" using n1 by simp
      have str: "dec_str (Finite s c e) = sign_str s @ ds @ CHR ''E'' # int_str_signed (e + int n - 1)"
        using n_eq ne1 sci by (simp add: dec_str_def Let_def ds_def [symmetric] n_def [symmetric] sci)
      show ?thesis
        unfolding check_cents_def str using False sci
        by (simp add: fraction_check_no_dot no_dot_sign dd no_dot_exp ds_def [symmetric] n_def [symmetric] sci)
    qed
  qed
qed

section \<open>Category splits\<close>







lemma check_categories_None: "check_categories amt None = check_categories amt (Some [])"
  by (simp add: check_categories_def)

section \<open>Amount and splits of a transaction\<close>

lemma check_amount_decimal:
  "check_amount (PyDecimal (Finite s c e)) =
     (if c = 0 then Inl (InvalidTransactionError ''transaction must have an amount'')
      else check_cents (Finite s c e))"
  by (simp add: check_amount_def)

lemma digits_length_pos: "length (digits_of c) \<ge> 1"
  using digits_of_nonempty [of c] by (cases "digits_of c") simp_all


lemma check_cents_up_to_two:
  assumes "- 2 \<le> e" "e \<le> 0"
  shows "check_cents (Finite s c e) = Inr (Finite s c e)"
proof -
  have "e \<le> 0 \<and> e + int (length (digits_of c)) > - 6"
    using assms digits_length_pos [of c] by linarith
  then show ?thesis using assms by (simp add: check_cents_finite)
qed










section \<open>Ledger records\<close>








lemma plain_txn_sel [simp]:
  "amount (plain_txn acc d a) = a" "txn_date (plain_txn acc d a) = d"
  by (simp_all add: plain_txn_def)






lemma dec_fix_cases: "\<exists>c' e'. dec_fix s c e = Finite s c' e'"
  by (simp add: dec_fix_def Let_def)

lemma exceeds_zero_finite: "exceeds (Finite False 0 0) (Finite s c e) = Inr False"
proof -
  obtain c' e' where f: "dec_fix False c e = Finite False c' e'"
    using dec_fix_cases by blast
  have z: "dec_fix False 0 0 = Finite False 0 0"
    by (simp add: dec_fix_def prec_def)
  have "\<not> (0::int) > int c' * 10 ^ nat (e' - min 0 e')"
    by (simp add: not_less)
  then show ?thesis by (simp add: exceeds_def f z aligned_def)
qed

lemma plain_txn_constructed:
  assumes "c \<noteq> 0" "- 2 \<le> e" "e \<le> 0"
  shows "Transaction_init (Some acc) (PyDecimal (Finite s c e)) (PyDate d) None None None None None None
           = Inr (plain_txn acc d (Finite s c e))"
  using assms
  by (simp add: Transaction_init_def check_account_def check_amount_decimal check_cents_up_to_two
      check_txn_date_def check_categories_def exceeds_zero_finite plain_txn_def)

section \<open>Budgets in storage\<close>

lemma digits_small [simp]:
  "digits_of 0 = ''0''" "digits_of 1 = ''1''" "digits_of 2 = ''2''" "digits_of 5 = ''5''"
  by (simp_all add: digits_of.simps digit_char_def)

lemma dec_str_examples:
  "dec_str (Finite False 35 0) = ''35''" "dec_str (Finite False 70 0) = ''70''"
  "dec_str (Finite False 10 0) = ''10''" "dec_str (Finite False 20 0) = ''20''"
  "dec_str (Finite False 5 0) = ''5''" "dec_str (Finite False 100 0) = ''100''"
  by (simp_all add: dec_str_def digits_of.simps digit_char_def sign_str_def)

lemma int_str_years: "int_str 2018 = ''2018''" "int_str 2019 = ''2019''"
  by (simp_all add: int_str_def digits_of.simps digit_char_def)

lemma two_budgets_db_rows:
  "two_budgets_db =
     \<lparr> tbl_accounts = [], tbl_budgets = [(1, Some ''2018''), (2, Some ''2019'')],
       tbl_budget_values = [(1, 1, Some 1, ''35''), (2, 2, Some 1, ''70'')],
       tbl_categories = [(1, ''Food'')], tbl_transactions = [], tbl_txn_categories = [] \<rparr>"
  by (simp add: two_budgets_db_def save_category_def save_budget_def setup_db_def id_set_def
      lastrowid_def Let_def dec_str_examples int_str_years)

lemma py_int_years: "py_int ''2018'' = Some 2018" "py_int ''2019'' = Some 2019"
  by code_simp+

lemma Decimal_of_str_examples:
  "Decimal_of_str ''35'' = Some (Finite False 35 0)" "Decimal_of_str ''70'' = Some (Finite False 70 0)"
  by code_simp+

lemma budgets_loop_same:
  "budgets_loop d recs todo acc = Inr bs \<Longrightarrow> b \<in> set bs \<Longrightarrow> b \<notin> set acc \<Longrightarrow>
     (\<exists>r rest. recs = r # rest \<and> get_budget d (fst r) = Inr b)"
proof (induction todo arbitrary: acc)
  case Nil
  then show ?case by simp
next
  case (Cons x todo)
  from Cons.prems(1) obtain r rest where recs: "recs = r # rest"
    by (cases recs) simp_all
  from Cons.prems(1) recs obtain b0 where b0: "get_budget d (fst r) = Inr b0"
    by (cases "get_budget d (fst r)") simp_all
  from Cons.prems(1) recs b0 have loop: "budgets_loop d recs todo (acc @ [b0]) = Inr bs"
    by simp
  show ?case
  proof (cases "b = b0")
    case True
    with recs b0 show ?thesis by simp
  next
    case False
    with Cons.prems(3) have "b \<notin> set (acc @ [b0])" by simp
    from Cons.IH [OF loop Cons.prems(2) this] show ?thesis .
  qed
qed

lemma get_budgets_all_first:
  "get_budgets d = Inr bs \<Longrightarrow> b \<in> set bs \<Longrightarrow>
     \<exists>r rest. tbl_budgets d = r # rest \<and> get_budget d (fst r) = Inr b"
  using budgets_loop_same [of d "tbl_budgets d" "tbl_budgets d" "[]" bs b]
  by (simp add: get_budgets_def)

text \<open>
  C6. In the database with the budgets of 2018 and 2019, \<^verbatim>\<open>get_budgets\<close> returns the
  budget of 2018 twice and the budget of 2019 not at all, although \<^verbatim>\<open>get_budget\<close>
  finds the budget of 2019 under its own id 2.
\<close>

theorem get_budgets_repeats_first_budget:
  "get_budgets two_budgets_db
     = Inr [\<lparr> budget_year = PyInt 2018,
               info = [(\<lparr> cat_name = ''Food'', cat_id = Some 1 \<rparr>, Finite False 35 0)],
               budget_id = None \<rparr>,
            \<lparr> budget_year = PyInt 2018,
               info = [(\<lparr> cat_name = ''Food'', cat_id = Some 1 \<rparr>, Finite False 35 0)],
               budget_id = None \<rparr>]
   \<and> get_budget two_budgets_db 2
     = Inr \<lparr> budget_year = PyInt 2019,
             info = [(\<lparr> cat_name = ''Food'', cat_id = Some 1 \<rparr>, Finite False 70 0)],
             budget_id = None \<rparr>"
proof (intro conjI)
  have b1: "get_budget two_budgets_db 1
     = Inr \<lparr> budget_year = PyInt 2018,
             info = [(\<lparr> cat_name = ''Food'', cat_id = Some 1 \<rparr>, Finite False 35 0)],
             budget_id = None \<rparr>"
    unfolding two_budgets_db_rows
    by (simp add: get_budget_def py_int_years Decimal_of_str_examples get_category_def
        select_by_id_def Budget_init_def)
  show "get_budgets two_budgets_db
     = Inr [\<lparr> budget_year = PyInt 2018,
               info = [(\<lparr> cat_name = ''Food'', cat_id = Some 1 \<rparr>, Finite False 35 0)],
               budget_id = None \<rparr>,
            \<lparr> budget_year = PyInt 2018,
               info = [(\<lparr> cat_name = ''Food'', cat_id = Some 1 \<rparr>, Finite False 35 0)],
               budget_id = None \<rparr>]"
    using b1 by (simp add: get_budgets_def two_budgets_db_rows)
  show "get_budget two_budgets_db 2
     = Inr \<lparr> budget_year = PyInt 2019,
             info = [(\<lparr> cat_name = ''Food'', cat_id = Some 1 \<rparr>, Finite False 70 0)],
             budget_id = None \<rparr>"
    unfolding two_budgets_db_rows
    by (simp add: get_budget_def py_int_years Decimal_of_str_examples get_category_def
        select_by_id_def Budget_init_def)
qed

section \<open>Deleting a transaction\<close>

lemma strftime_examples:
  "strftime_ymd (Date 2017 3 25) = ''2017-03-25''" "strftime_ymd (Date 2017 3 28) = ''2017-03-28''"
  by (simp_all add: strftime_ymd_def pad2_def digits_of.simps digit_char_def)

lemma two_txns_db_rows:
  "two_txns_db =
     \<lparr> tbl_accounts = [(1, ''Checking'', ''100'')], tbl_budgets = [], tbl_budget_values = [],
       tbl_categories = [(1, ''Food'')],
       tbl_transactions =
         [(1, Some 1, Some ''BP'', ''2017-03-25'', Some ''Waffle House'', ''10'', None, None),
          (2, Some 1, None, ''2017-03-28'', Some ''Subway'', ''20'', None, None)],
       tbl_txn_categories = [(1, 1, Some 1, ''10''), (2, 2, Some 1, ''5'')] \<rparr>"
  by (simp add: two_txns_db_def save_category_def save_txn_def save_txn_account_def
      save_txn_row_def save_txn_splits_def txn_columns_def save_account_def setup_db_def
      id_set_def lastrowid_def Let_def dec_str_examples strftime_examples)

lemma delete_txn_keeps_splits: "tbl_txn_categories (delete_txn d i) = tbl_txn_categories d"
  by (simp add: delete_txn_def)

text \<open>
  C5. In the database with the two saved transactions, deleting transaction 1 removes its
  row from the table of transactions, and leaves the table of splits as it was: the split
  row of the deleted transaction is still there, next to the one of transaction 2.
\<close>

theorem delete_txn_leaves_split_rows:
  "tbl_transactions (delete_txn two_txns_db (Some 1))
     = [(2, Some 1, None, ''2017-03-28'', Some ''Subway'', ''20'', None, None)]
   \<and> tbl_txn_categories (delete_txn two_txns_db (Some 1))
     = [(1, 1, Some 1, ''10''), (2, 2, Some 1, ''5'')]
   \<and> filter (\<lambda>r. fst (snd r) = 1) (tbl_txn_categories (delete_txn two_txns_db (Some 1)))
     = [(1, 1, Some 1, ''10'')]"
  unfolding two_txns_db_rows by (simp add: delete_txn_def)

section \<open>Date increments\<close>

lemma days_in_month_ge: "28 \<le> days_in_month y m"
  by (simp add: days_in_month_def)

lemma increment_month_valid:
  assumes "valid_date d" "month d < 12 \<or> year d < 9999"
  shows "valid_date (increment_month d)"
  using assms days_in_month_ge [of "year d" "month d + 1"] days_in_month_ge [of "year d + 1" 1]
  by (auto simp: valid_date_def increment_month_def Let_def)

lemma increment_quarter_valid:
  assumes "valid_date d" "month d \<le> 9 \<or> year d < 9999"
  shows "valid_date (increment_quarter d)"
  using assms days_in_month_ge [of "year d" "month d + 3"] days_in_month_ge [of "year d + 1" "month d + 3 - 12"]
  by (auto simp: valid_date_def increment_quarter_def Let_def)

lemma min_day_no_clamp: "n \<le> 28 \<Longrightarrow> min n (days_in_month y m) = n"
  using days_in_month_ge [of y m] by simp

lemma increment_month_no_clamp:
  "day d \<le> 28 \<Longrightarrow> day (increment_month d) = day d"
  by (simp add: increment_month_def Let_def min_day_no_clamp)

lemma increment_quarter_three_months:
  assumes "valid_date d" "day d \<le> 28"
  shows "increment_quarter d = increment_month (increment_month (increment_month d))"
proof -
  have m: "1 \<le> month d" "month d \<le> 12" using assms(1) by (simp_all add: valid_date_def)
  have a: "\<And>y m. min (day d) (days_in_month y m) = day d"
    using assms(2) by (rule min_day_no_clamp)
  consider "month d \<le> 9" | "month d = 10" | "month d = 11" | "month d = 12"
    using m by linarith
  then show ?thesis
    by cases (simp_all add: increment_quarter_def increment_month_def Let_def a)
qed

lemma increment_examples:
  "increment_month (Date 2018 1 31) = Date 2018 2 28"
  "increment_month (Date 2018 3 31) = Date 2018 4 30"
  "increment_quarter (Date 2018 1 31) = Date 2018 4 30"
  "increment_quarter (Date 2018 11 30) = Date 2019 2 28"
  "increment_quarter (Date 2018 12 31) = Date 2019 3 31"
  by (simp_all add: increment_month_def increment_quarter_def days_in_month_def is_leap_def)

text \<open>
  C3 (as the examples and the tests have it). \<^verbatim>\<open>increment_month\<close> advances a date by
  one calendar month and clamps the day to the last valid day of the target month, so
  2018-01-31 gives 2018-02-28 and 2018-03-31 gives 2018-04-30. \<^verbatim>\<open>increment_quarter\<close>
  advances by three calendar months and clamps the day once, to the last valid day of the
  target month, so 2018-01-31 gives 2018-04-30 and 2018-11-30 gives 2019-02-28; it is three
  applications of \<^verbatim>\<open>increment_month\<close> for the dates whose day is at most 28.
\<close>

theorem increment_month_and_quarter:
  "(valid_date d \<and> (month d < 12 \<or> year d < 9999) \<longrightarrow>
      valid_date (increment_month d)
      \<and> 12 * year (increment_month d) + month (increment_month d) = 12 * year d + month d + 1
      \<and> day (increment_month d)
          = min (day d) (days_in_month (year (increment_month d)) (month (increment_month d))))
   \<and> increment_month (Date 2018 1 31) = Date 2018 2 28
   \<and> increment_month (Date 2018 3 31) = Date 2018 4 30
   \<and> (valid_date d \<and> (month d \<le> 9 \<or> year d < 9999) \<longrightarrow>
      valid_date (increment_quarter d)
      \<and> 12 * year (increment_quarter d) + month (increment_quarter d) = 12 * year d + month d + 3
      \<and> day (increment_quarter d)
          = min (day d) (days_in_month (year (increment_quarter d)) (month (increment_quarter d))))
   \<and> (valid_date d \<and> day d \<le> 28 \<longrightarrow>
        increment_quarter d = increment_month (increment_month (increment_month d)))
   \<and> increment_quarter (Date 2018 1 31) = Date 2018 4 30
   \<and> increment_quarter (Date 2018 11 30) = Date 2019 2 28"
proof (intro conjI impI)
  assume h: "valid_date d \<and> (month d < 12 \<or> year d < 9999)"
  then show "valid_date (increment_month d)" by (simp add: increment_month_valid)
  from h have "month d \<le> 12" by (simp add: valid_date_def)
  then show "12 * year (increment_month d) + month (increment_month d) = 12 * year d + month d + 1"
    by (simp add: increment_month_def Let_def)
  show "day (increment_month d)
          = min (day d) (days_in_month (year (increment_month d)) (month (increment_month d)))"
    by (simp add: increment_month_def Let_def)
next
  assume h: "valid_date d \<and> (month d \<le> 9 \<or> year d < 9999)"
  then show "valid_date (increment_quarter d)" by (simp add: increment_quarter_valid)
  from h have "month d \<le> 12" by (simp add: valid_date_def)
  then show "12 * year (increment_quarter d) + month (increment_quarter d) = 12 * year d + month d + 3"
    by (simp add: increment_quarter_def Let_def)
  show "day (increment_quarter d)
          = min (day d) (days_in_month (year (increment_quarter d)) (month (increment_quarter d)))"
    by (simp add: increment_quarter_def Let_def)
next
  assume "valid_date d \<and> day d \<le> 28"
  then show "increment_quarter d = increment_month (increment_month (increment_month d))"
    by (simp add: increment_quarter_three_months)
qed (rule increment_examples)+

theorem increment_month_and_quarter_witness:
  "valid_date (Date 2020 11 28)
   \<and> valid_date (increment_month (Date 2020 11 28))
   \<and> valid_date (increment_quarter (Date 2020 11 28))
   \<and> increment_quarter (Date 2020 11 28)
       = increment_month (increment_month (increment_month (Date 2020 11 28)))
   \<and> increment_quarter (Date 2020 11 28) = Date 2021 2 28"
proof -
  have v: "valid_date (Date 2020 11 28)"
    by (simp add: valid_date_def days_in_month_def)
  have q: "increment_quarter (Date 2020 11 28) = Date 2021 2 28"
    by (simp add: increment_quarter_def days_in_month_def is_leap_def)
  note T = increment_month_and_quarter [of "Date 2020 11 28"]
  have h1: "valid_date (Date 2020 11 28) \<and> (month (Date 2020 11 28) < 12 \<or> year (Date 2020 11 28) < 9999)"
    using v by simp
  have h2: "valid_date (Date 2020 11 28) \<and> (month (Date 2020 11 28) \<le> 9 \<or> year (Date 2020 11 28) < 9999)"
    using v by simp
  have h3: "valid_date (Date 2020 11 28) \<and> day (Date 2020 11 28) \<le> 28"
    using v by simp
  from T h1 have a: "valid_date (increment_month (Date 2020 11 28))" by blast
  from T h2 have b: "valid_date (increment_quarter (Date 2020 11 28))" by blast
  from T h3 have c: "increment_quarter (Date 2020 11 28)
       = increment_month (increment_month (increment_month (Date 2020 11 28)))" by blast
  from v a b c q show ?thesis by (intro conjI)
qed

text \<open>
  The claim as the specification words it contradicts itself: three applications of
  \<^verbatim>\<open>increment_month\<close> to 2018-01-31 clamp to 2018-02-28 first and end on 2018-04-28,
  not on the 2018-04-30 of the claim and of the tests.
\<close>

theorem three_month_steps_counterexample:
  "increment_quarter_spec (Date 2018 1 31) = Date 2018 4 28
   \<and> increment_quarter (Date 2018 1 31) = Date 2018 4 30"
  by (simp add: increment_quarter_spec_def increment_month_def increment_quarter_def
      days_in_month_def is_leap_def)

section \<open>Decimal strings read back\<close>


















section \<open>Saving and reloading a transaction\<close>




lemma lastrowid_pos: "lastrowid rows \<noteq> 0"
  by (simp add: lastrowid_def)



lemma find_map_update:
  "find (\<lambda>r. fst r = k) rows = Some old \<Longrightarrow>
     find (\<lambda>r. fst r = k) (map (\<lambda>r. if Some (fst r) = Some k then (fst r, v) else r) rows) = Some (k, v)"
  by (induction rows) (auto split: if_splits)




























end
